theory Spec2Isabelle
  imports Complex_Main
begin

section \<open>Data model (account.model.ts)\<close>

text \<open>
  A JavaScript number is an IEEE double; the model holds the rational value of a finite
  double (NaN and the infinities are outside the model). Comparisons of doubles are
  exact, so they are the comparisons of these values. The sum and the product of two
  doubles are rounded, so they are not the sum and the product of the values: the
  arithmetic of the engine is a parameter of the model, a record of its addition and its
  multiplication, about which nothing is assumed. Account identifiers are integers.
  A \<open>Date\<close> is the instant it denotes, in milliseconds since the epoch.
\<close>

type_synonym number = rat
type_synonym date = int

record DoubleArithmetic =
  dadd :: "number \<Rightarrow> number \<Rightarrow> number"
  dmul :: "number \<Rightarrow> number \<Rightarrow> number"

datatype AccountType = SAVINGS | CURRENT

datatype AccountStatus = ACTIVE | CLOSED | SUSPENDED

text \<open>
  The records of errors, requests and responses come first, so that an unqualified field
  name shared with \<open>Account\<close> or \<open>AccountState\<close> (\<open>accountType\<close>, \<open>status\<close>, \<open>error\<close>, ...)
  denotes the field of the account or of the state; the fields of the other records are
  written qualified, as in \<open>CreateAccountRequest.accountType request\<close>.

  Angular's \<open>HttpErrorResponse\<close> has the fields that \<open>handleError\<close> reads; its \<open>error\<close> is
  \<open>ErrorEvent m\<close> when \<open>error.error instanceof ErrorEvent\<close> holds, with message \<open>m\<close>.
  \<open>Error m\<close> is the JavaScript \<open>Error\<close> with message \<open>m\<close>.
\<close>

datatype ErrorBody = ErrorEvent string | OtherBody

record HttpErrorResponse =
  error :: ErrorBody
  status :: nat
  statusText :: string

datatype Error = Error string

record CreateAccountRequest =
  accountType :: AccountType
  accountHolderName :: string
  email :: string
  phone :: string
  initialDeposit :: number

record CloseAccountResponse =
  success :: bool
  message :: string
  closedDate :: date

record BalanceCheckResponse =
  accountId :: int
  accountNumber :: string
  currentBalance :: number
  availableBalance :: number
  isLowBalance :: bool
  minBalanceRequired :: number

text \<open>
  \<open>NewAccount\<close> is \<open>Omit<Account, 'id'>\<close>, the body that \<open>createAccount\<close> posts;
  \<open>Account\<close> extends it with the identifier. The optional \<open>overdraftLimit\<close> is an option.
\<close>

record NewAccount =
  accountNumber :: string
  accountType :: AccountType
  accountHolderName :: string
  email :: string
  phone :: string
  balance :: number
  minBalance :: number
  overdraftLimit :: "number option"
  status :: AccountStatus
  createdDate :: date
  lastModifiedDate :: date
  monthlyServiceCharge :: number
  interestRate :: number

record Account = NewAccount +
  id' :: int

record CreateAccountResponse =
  success :: bool
  message :: string
  account :: Account

text \<open>The constants \<open>ACCOUNT_RULES\<close>.\<close>

definition SAVINGS_MIN_BALANCE :: number where "SAVINGS_MIN_BALANCE = 1000"
definition SAVINGS_LOW_BALANCE_THRESHOLD :: number where "SAVINGS_LOW_BALANCE_THRESHOLD = 2000"
definition SAVINGS_WITHDRAWAL_LIMIT :: number where "SAVINGS_WITHDRAWAL_LIMIT = 50000"
definition SAVINGS_INTEREST_RATE :: number where "SAVINGS_INTEREST_RATE = 9 / 2"
definition SAVINGS_INITIAL_DEPOSIT_MIN :: number where "SAVINGS_INITIAL_DEPOSIT_MIN = 1000"
definition CURRENT_MIN_BALANCE :: number where "CURRENT_MIN_BALANCE = 5000"
definition CURRENT_LOW_BALANCE_THRESHOLD :: number where "CURRENT_LOW_BALANCE_THRESHOLD = 7000"
definition CURRENT_OVERDRAFT_LIMIT :: number where "CURRENT_OVERDRAFT_LIMIT = 10000"
definition CURRENT_MONTHLY_SERVICE_CHARGE :: number where "CURRENT_MONTHLY_SERVICE_CHARGE = 500"
definition CURRENT_INITIAL_DEPOSIT_MIN :: number where "CURRENT_INITIAL_DEPOSIT_MIN = 5000"

text \<open>
  JavaScript truthiness of the optional numeric field, as tested by
  \<open>account.overdraftLimit\<close> in a condition: defined and not zero.
\<close>

definition truthy :: "number option \<Rightarrow> bool" where
  "truthy v = (case v of None \<Rightarrow> False | Some l \<Rightarrow> l \<noteq> 0)"

section \<open>Store state and action catalog (account.state.ts, account.actions.ts)\<close>

record AccountState =
  accounts :: "Account list"
  selectedAccount :: "Account option"
  selectedAccountId :: "int option"
  loading :: bool
  error :: "string option"
  lastUpdated :: "date option"
  initialized :: bool

definition initialAccountState :: AccountState where
  "initialAccountState =
     \<lparr> accounts = [], selectedAccount = None, selectedAccountId = None, loading = False,
       error = None, lastUpdated = None, initialized = False \<rparr>"

datatype Action =
    loadAccounts
  | loadAccountsSuccess "Account list"
  | loadAccountsFailure string
  | loadAccount int
  | loadAccountSuccess Account
  | loadAccountFailure string
  | createAccount CreateAccountRequest
  | createAccountSuccess CreateAccountResponse
  | createAccountFailure string
  | deleteAccount int
  | deleteAccountSuccess int CloseAccountResponse
  | deleteAccountFailure string
  | checkBalance int
  | checkBalanceSuccess BalanceCheckResponse
  | checkBalanceFailure string
  | clearError
  | selectAccount "int option"

section \<open>Transition function (account.reducer.ts)\<close>

text \<open>
  The handlers call \<open>new Date()\<close>. The wall clock is an input of the model: a transition
  receives the readings that its successive \<open>new Date()\<close> calls return, \<open>clk 0\<close> for the
  first call, \<open>clk 1\<close> for the second, and so on.
\<close>

type_synonym clock = "nat \<Rightarrow> date"

text \<open>\<open>state.accounts.some(a => a.id === i)\<close> and \<open>state.accounts.find(a => a.id === i)\<close>.\<close>

definition someId :: "int \<Rightarrow> Account list \<Rightarrow> bool" where
  "someId i as = list_ex (\<lambda>a. id' a = i) as"

definition findId :: "int \<Rightarrow> Account list \<Rightarrow> Account option" where
  "findId i as = find (\<lambda>a. id' a = i) as"

text \<open>
  The \<open>map\<close> of the \<open>checkBalanceSuccess\<close> handler: every account with the response's id
  gets the response's balance and a fresh \<open>new Date()\<close>; the second component counts the
  clock readings used so far.
\<close>

fun updateBalances :: "clock \<Rightarrow> nat \<Rightarrow> BalanceCheckResponse \<Rightarrow> Account list \<Rightarrow> Account list \<times> nat" where
  "updateBalances clk n response [] = ([], n)"
| "updateBalances clk n response (a # as) =
     (if id' a = accountId response
      then (let (as', n') = updateBalances clk (Suc n) response as
            in (a\<lparr>balance := currentBalance response, lastModifiedDate := clk n\<rparr> # as', n'))
      else (let (as', n') = updateBalances clk n response as in (a # as', n')))"

fun accountReducer :: "clock \<Rightarrow> AccountState \<Rightarrow> Action \<Rightarrow> AccountState" where
  "accountReducer clk state loadAccounts = state\<lparr>loading := True, error := None\<rparr>"
| "accountReducer clk state (loadAccountsSuccess accs) =
     state\<lparr>accounts := accs, loading := False, error := None, initialized := True,
           lastUpdated := Some (clk 0)\<rparr>"
| "accountReducer clk state (loadAccountsFailure e) = state\<lparr>loading := False, error := Some e\<rparr>"
| "accountReducer clk state (loadAccount i) = state\<lparr>loading := True, error := None\<rparr>"
| "accountReducer clk state (loadAccountSuccess acc) =
     (let accountExists = someId (id' acc) (accounts state);
          updatedAccounts =
            (if accountExists
             then map (\<lambda>a. if id' a = id' acc then acc else a) (accounts state)
             else accounts state @ [acc])
      in state\<lparr>accounts := updatedAccounts, selectedAccount := Some acc,
               selectedAccountId := Some (id' acc), loading := False, error := None,
               lastUpdated := Some (clk 0)\<rparr>)"
| "accountReducer clk state (loadAccountFailure e) = state\<lparr>loading := False, error := Some e\<rparr>"
| "accountReducer clk state (createAccount request) = state\<lparr>loading := True, error := None\<rparr>"
| "accountReducer clk state (createAccountSuccess response) =
     state\<lparr>accounts := accounts state @ [account response], loading := False, error := None,
           lastUpdated := Some (clk 0)\<rparr>"
| "accountReducer clk state (createAccountFailure e) = state\<lparr>loading := False, error := Some e\<rparr>"
| "accountReducer clk state (deleteAccount i) = state\<lparr>loading := True, error := None\<rparr>"
| "accountReducer clk state (deleteAccountSuccess i response) =
     (let updatedAccounts = filter (\<lambda>a. id' a \<noteq> i) (accounts state);
          selectedAccountCleared = (selectedAccountId state = Some i)
      in state\<lparr>accounts := updatedAccounts,
               selectedAccount := (if selectedAccountCleared then None else selectedAccount state),
               selectedAccountId := (if selectedAccountCleared then None else selectedAccountId state),
               loading := False, error := None, lastUpdated := Some (clk 0)\<rparr>)"
| "accountReducer clk state (deleteAccountFailure e) = state\<lparr>loading := False, error := Some e\<rparr>"
| "accountReducer clk state (checkBalance i) = state\<lparr>loading := True, error := None\<rparr>"
| "accountReducer clk state (checkBalanceSuccess response) =
     (let (updatedAccounts, n) = updateBalances clk 0 response (accounts state);
          (updatedSelectedAccount, n') =
            (case selectedAccount state of
               None \<Rightarrow> (None, n)
             | Some sel \<Rightarrow>
                 if id' sel = accountId response
                 then (Some (sel\<lparr>balance := currentBalance response, lastModifiedDate := clk n\<rparr>),
                       Suc n)
                 else (Some sel, n))
      in state\<lparr>accounts := updatedAccounts, selectedAccount := updatedSelectedAccount,
               loading := False, error := None, lastUpdated := Some (clk n')\<rparr>)"
| "accountReducer clk state (checkBalanceFailure e) = state\<lparr>loading := False, error := Some e\<rparr>"
| "accountReducer clk state (selectAccount None) =
     state\<lparr>selectedAccount := None, selectedAccountId := None\<rparr>"
| "accountReducer clk state (selectAccount (Some i)) =
     state\<lparr>selectedAccount := findId i (accounts state), selectedAccountId := Some i\<rparr>"
| "accountReducer clk state clearError = state\<lparr>error := None\<rparr>"

text \<open>
  The exported wrapper: \<open>createReducer\<close> starts from the initial state when the store
  passes \<open>undefined\<close>.
\<close>

definition AccountReducer :: "clock \<Rightarrow> AccountState option \<Rightarrow> Action \<Rightarrow> AccountState" where
  "AccountReducer clk state action =
     accountReducer clk (case state of None \<Rightarrow> initialAccountState | Some s \<Rightarrow> s) action"

section \<open>State helpers and selectors (account.state.ts, account.selectors.ts)\<close>

definition getActiveAccounts :: "AccountState \<Rightarrow> Account list" where
  "getActiveAccounts state = filter (\<lambda>account. status account = ACTIVE) (accounts state)"

definition getLowBalanceAccounts :: "AccountState \<Rightarrow> Account list" where
  "getLowBalanceAccounts state =
     filter (\<lambda>account.
               let threshold = (if accountType account = SAVINGS then 2000 else 7000)
               in balance account < threshold)
            (getActiveAccounts state)"

text \<open>
  \<open>createSelector\<close> composes a projector with its input selector; its memoisation
  returns the value the projector computes. \<open>createFeatureSelector('accounts')\<close> reads the
  feature slice of the root store state.
\<close>

record AppState =
  accountsFeature :: AccountState

definition createSelector :: "('s \<Rightarrow> 'a) \<Rightarrow> ('a \<Rightarrow> 'b) \<Rightarrow> 's \<Rightarrow> 'b" where
  "createSelector input projector s = projector (input s)"

definition selectAccountState :: "AppState \<Rightarrow> AccountState" where
  "selectAccountState appState = accountsFeature appState"

definition selectAllAccounts :: "AppState \<Rightarrow> Account list" where
  "selectAllAccounts = createSelector selectAccountState accounts"

definition selectActiveAccounts :: "AppState \<Rightarrow> Account list" where
  "selectActiveAccounts =
     createSelector selectAllAccounts (filter (\<lambda>account. status account = ACTIVE))"

definition selectLowBalanceAccounts :: "AppState \<Rightarrow> Account list" where
  "selectLowBalanceAccounts =
     createSelector selectActiveAccounts
       (filter (\<lambda>account.
                  let threshold = (if accountType account = SAVINGS then 2000 else 7000)
                  in balance account < threshold))"

text \<open>
  The low-balance projection in the words of the specification: the ACTIVE accounts whose
  balance is below 2000 for SAVINGS or 7000 for CURRENT, in collection order.
\<close>

definition lowBalance_spec :: "Account list \<Rightarrow> Account list" where
  "lowBalance_spec accs =
     filter (\<lambda>a. status a = ACTIVE \<and>
                 balance a < (case accountType a of SAVINGS \<Rightarrow> 2000 | CURRENT \<Rightarrow> 7000)) accs"

section \<open>Request gateway (account.service.ts)\<close>

text \<open>
  An HTTP observable is cold and delivers one notification: every subscription issues one
  request and ends with a value or an error. The model threads the number of requests
  issued so far: an observable takes that count, and returns its notification
  (\<open>Inl\<close> the error) with the new count. A server is the outcome of the \<open>k\<close>-th request.
  \<open>delay\<close> postpones a value without changing it and is left out.
\<close>

type_synonym ('e, 'a) observable = "nat \<Rightarrow> ('e + 'a) \<times> nat"

type_synonym 'a server = "nat \<Rightarrow> HttpErrorResponse + 'a"

definition http_request :: "'a server \<Rightarrow> (HttpErrorResponse, 'a) observable" where
  "http_request server k = (server k, Suc k)"

definition map_op :: "('a \<Rightarrow> 'b) \<Rightarrow> ('e, 'a) observable \<Rightarrow> ('e, 'b) observable" where
  "map_op f source k =
     (case source k of (Inl e, k') \<Rightarrow> (Inl e, k') | (Inr v, k') \<Rightarrow> (Inr (f v), k'))"

text \<open>\<open>retry(n)\<close> resubscribes to its source on an error, at most \<open>n\<close> times.\<close>

fun retry :: "nat \<Rightarrow> ('e, 'a) observable \<Rightarrow> ('e, 'a) observable" where
  "retry 0 source k = source k"
| "retry (Suc n) source k =
     (case source k of (Inl e, k') \<Rightarrow> retry n source k' | (Inr v, k') \<Rightarrow> (Inr v, k'))"

definition throwError :: "'e \<Rightarrow> ('e, 'a) observable" where
  "throwError e k = (Inl e, k)"

definition catchError :: "('e \<Rightarrow> ('f, 'a) observable) \<Rightarrow> ('e, 'a) observable \<Rightarrow> ('f, 'a) observable" where
  "catchError selector source k =
     (case source k of (Inl e, k') \<Rightarrow> selector e k' | (Inr v, k') \<Rightarrow> (Inr v, k'))"

text \<open>Decimal rendering of a number inside a template literal.\<close>

definition digitChar :: "nat \<Rightarrow> char" where
  "digitChar d =
     (if d = 0 then CHR ''0'' else if d = 1 then CHR ''1'' else if d = 2 then CHR ''2''
      else if d = 3 then CHR ''3'' else if d = 4 then CHR ''4'' else if d = 5 then CHR ''5''
      else if d = 6 then CHR ''6'' else if d = 7 then CHR ''7'' else if d = 8 then CHR ''8''
      else CHR ''9'')"

fun showNat :: "nat \<Rightarrow> string" where
  "showNat n = (if n < 10 then [digitChar n] else showNat (n div 10) @ [digitChar (n mod 10)])"

definition errorMessage :: "HttpErrorResponse \<Rightarrow> string" where
  "errorMessage err =
     (case HttpErrorResponse.error err of
        ErrorEvent m \<Rightarrow> ''Client Error: '' @ m
      | OtherBody \<Rightarrow>
          if HttpErrorResponse.status err = 0
          then ''Unable to connect to the server. Please ensure JSON Server is running on http://localhost:3000''
          else if HttpErrorResponse.status err = 400
          then ''Invalid request. Please check your input.''
          else if HttpErrorResponse.status err = 404 then ''Account not found.''
          else if HttpErrorResponse.status err = 500 then ''Server error. Please try again later.''
          else ''Server Error: '' @ showNat (HttpErrorResponse.status err) @ '' - '' @ statusText err)"

definition handleError :: "HttpErrorResponse \<Rightarrow> (Error, 'a) observable" where
  "handleError err = throwError (Error (errorMessage err))"

text \<open>\<open>new Date(d)\<close> of a date, or of the string that encodes it, is the same instant.\<close>

definition newDate :: "date \<Rightarrow> date" where
  "newDate d = d"

definition transformAccountDate :: "Account \<Rightarrow> Account" where
  "transformAccountDate acc =
     acc\<lparr>createdDate := newDate (createdDate acc),
         lastModifiedDate := newDate (lastModifiedDate acc)\<rparr>"

definition transformAccountDates :: "Account list \<Rightarrow> Account list" where
  "transformAccountDates accs = map transformAccountDate accs"

definition AccountService_getAllAccounts :: "Account list server \<Rightarrow> (Error, Account list) observable" where
  "AccountService_getAllAccounts server =
     catchError handleError (retry 1 (map_op transformAccountDates (http_request server)))"

definition AccountService_getAccountById :: "(int \<Rightarrow> Account server) \<Rightarrow> int \<Rightarrow> (Error, Account) observable" where
  "AccountService_getAccountById server i =
     catchError handleError (map_op transformAccountDate (http_request (server i)))"

text \<open>
  The filtered lists send one query parameter, a pair of its name and its value; the
  value of an enum member is its string.
\<close>

fun AccountStatus_value :: "AccountStatus \<Rightarrow> string" where
  "AccountStatus_value ACTIVE = ''ACTIVE''"
| "AccountStatus_value CLOSED = ''CLOSED''"
| "AccountStatus_value SUSPENDED = ''SUSPENDED''"

fun AccountType_value :: "AccountType \<Rightarrow> string" where
  "AccountType_value SAVINGS = ''SAVINGS''"
| "AccountType_value CURRENT = ''CURRENT''"

definition AccountService_getAccountsByStatus ::
  "(string \<times> string \<Rightarrow> Account list server) \<Rightarrow> AccountStatus \<Rightarrow> (Error, Account list) observable" where
  "AccountService_getAccountsByStatus server st =
     (let params = (''status'', AccountStatus_value st)
      in catchError handleError (map_op transformAccountDates (http_request (server params))))"

definition AccountService_getAccountsByType ::
  "(string \<times> string \<Rightarrow> Account list server) \<Rightarrow> AccountType \<Rightarrow> (Error, Account list) observable" where
  "AccountService_getAccountsByType server ty =
     (let params = (''accountType'', AccountType_value ty)
      in catchError handleError (map_op transformAccountDates (http_request (server params))))"

definition AccountService_searchAccounts ::
  "(string \<times> string \<Rightarrow> Account list server) \<Rightarrow> string \<Rightarrow> (Error, Account list) observable" where
  "AccountService_searchAccounts server searchTerm =
     (let params = (''q'', searchTerm)
      in catchError handleError (map_op transformAccountDates (http_request (server params))))"

text \<open>
  \<open>generateAccountNumber\<close>: \<open>rnd\<close> is the value \<open>Math.random()\<close> returns, in \<open>[0, 1)\<close>;
  the product and the sum are the engine's.
\<close>

definition generateAccountNumber :: "DoubleArithmetic \<Rightarrow> number \<Rightarrow> string" where
  "generateAccountNumber ar rnd =
     ''ACC'' @ showNat (nat \<lfloor>dadd ar 100000000 (dmul ar rnd 900000000)\<rfloor>)"

text \<open>The body \<open>newAccount\<close> that \<open>createAccount\<close> builds and posts.\<close>

definition newAccount :: "DoubleArithmetic \<Rightarrow> clock \<Rightarrow> number \<Rightarrow> CreateAccountRequest \<Rightarrow> NewAccount" where
  "newAccount ar clk rnd request =
     (let accountNumber = generateAccountNumber ar rnd;
          minBalance = (if CreateAccountRequest.accountType request = SAVINGS
                        then SAVINGS_MIN_BALANCE else CURRENT_MIN_BALANCE);
          monthlyServiceCharge = (if CreateAccountRequest.accountType request = CURRENT
                                  then CURRENT_MONTHLY_SERVICE_CHARGE else 0);
          interestRate = (if CreateAccountRequest.accountType request = SAVINGS
                          then SAVINGS_INTEREST_RATE else 0)
      in \<lparr> accountNumber = accountNumber,
           accountType = CreateAccountRequest.accountType request,
           accountHolderName = CreateAccountRequest.accountHolderName request,
           email = CreateAccountRequest.email request,
           phone = CreateAccountRequest.phone request,
           balance = initialDeposit request,
           minBalance = minBalance,
           overdraftLimit = (if CreateAccountRequest.accountType request = CURRENT
                             then Some CURRENT_OVERDRAFT_LIMIT else None),
           status = ACTIVE,
           createdDate = clk 0,
           lastModifiedDate = clk 1,
           monthlyServiceCharge = monthlyServiceCharge,
           interestRate = interestRate \<rparr>)"

definition AccountService_createAccount ::
  "DoubleArithmetic \<Rightarrow> clock \<Rightarrow> number \<Rightarrow> (NewAccount \<Rightarrow> Account server)
   \<Rightarrow> CreateAccountRequest \<Rightarrow> (Error, CreateAccountResponse) observable" where
  "AccountService_createAccount ar clk rnd server request =
     catchError handleError
       (map_op (\<lambda>acc. \<lparr> success = True,
                         message = ''Account '' @ accountNumber acc @ '' created successfully!'',
                         account = transformAccountDate acc \<rparr>)
          (http_request (server (newAccount ar clk rnd request))))"

text \<open>
  The projector of \<open>checkBalance\<close>, and the method. The available balance of a current
  account with a truthy overdraft limit is the engine's sum of the two doubles.
\<close>

definition balanceCheckResponse :: "DoubleArithmetic \<Rightarrow> Account \<Rightarrow> BalanceCheckResponse" where
  "balanceCheckResponse ar acc =
     (let threshold = (if accountType acc = SAVINGS
                       then SAVINGS_LOW_BALANCE_THRESHOLD else CURRENT_LOW_BALANCE_THRESHOLD);
          availableBalance = (if accountType acc = CURRENT \<and> truthy (overdraftLimit acc)
                              then dadd ar (balance acc) (the (overdraftLimit acc))
                              else balance acc)
      in \<lparr> accountId = id' acc,
           BalanceCheckResponse.accountNumber = accountNumber acc,
           currentBalance = balance acc,
           availableBalance = availableBalance,
           isLowBalance = (balance acc < threshold),
           minBalanceRequired = minBalance acc \<rparr>)"

definition AccountService_checkBalance ::
  "DoubleArithmetic \<Rightarrow> (int \<Rightarrow> Account server) \<Rightarrow> int
   \<Rightarrow> (Error, BalanceCheckResponse) observable" where
  "AccountService_checkBalance ar server i =
     catchError handleError (map_op (balanceCheckResponse ar) (http_request (server i)))"

text \<open>
  \<open>closeAccount\<close> patches the status and the modification date (the pair \<open>updates\<close>);
  the closing date is read from the clock when the response arrives.
\<close>

definition AccountService_closeAccount ::
  "clock \<Rightarrow> (int \<Rightarrow> AccountStatus \<times> date \<Rightarrow> Account server) \<Rightarrow> int
   \<Rightarrow> (Error, CloseAccountResponse) observable" where
  "AccountService_closeAccount clk server i =
     (let updates = (CLOSED, clk 0)
      in catchError handleError
           (map_op (\<lambda>_. \<lparr> CloseAccountResponse.success = True,
                             CloseAccountResponse.message = ''Account closed successfully'',
                             closedDate = clk 1 \<rparr>)
              (http_request (server i updates))))"

section \<open>Effect coordinator (account.effects.ts)\<close>









section \<open>Runs of the store and state predicates\<close>

text \<open>
  A run of the store applies a sequence of catalog actions in dispatch order; every
  transition comes with its own clock readings. A guard admits a run when it admits every
  action in the state the action is dispatched in.
\<close>

fun run :: "AccountState \<Rightarrow> (clock \<times> Action) list \<Rightarrow> AccountState" where
  "run s [] = s"
| "run s ((clk, a) # tr) = run (accountReducer clk s a) tr"

fun admits :: "(AccountState \<Rightarrow> Action \<Rightarrow> bool) \<Rightarrow> AccountState \<Rightarrow> (clock \<times> Action) list \<Rightarrow> bool" where
  "admits guard s [] = True"
| "admits guard s ((clk, a) # tr) = (guard s a \<and> admits guard (accountReducer clk s a) tr)"

text \<open>The selected id is null or the id of an account of the collection.\<close>

definition selectionValid :: "AccountState \<Rightarrow> bool" where
  "selectionValid s =
     (case selectedAccountId s of None \<Rightarrow> True | Some i \<Rightarrow> someId i (accounts s))"

text \<open>
  The actions that cannot leave the selected id dangling: a selection of an id that the
  collection holds, and a loaded list that still holds the selected id.
\<close>

fun keepsSelection :: "AccountState \<Rightarrow> Action \<Rightarrow> bool" where
  "keepsSelection s (selectAccount (Some i)) = someId i (accounts s)"
| "keepsSelection s (loadAccountsSuccess accs) =
     (case selectedAccountId s of None \<Rightarrow> True | Some i \<Rightarrow> someId i accs)"
| "keepsSelection s a = True"

text \<open>The overdraft limit is defined exactly on current accounts.\<close>

definition overdraftOk :: "'a NewAccount_scheme \<Rightarrow> bool" where
  "overdraftOk a = ((overdraftLimit a \<noteq> None) = (accountType a = CURRENT))"

text \<open>The accounts an action carries into the collection satisfy it.\<close>

fun payloadOk :: "AccountState \<Rightarrow> Action \<Rightarrow> bool" where
  "payloadOk s (loadAccountsSuccess accs) = list_all overdraftOk accs"
| "payloadOk s (loadAccountSuccess acc) = overdraftOk acc"
| "payloadOk s (createAccountSuccess response) = overdraftOk (account response)"
| "payloadOk s a = True"

text \<open>The handlers that call \<open>new Date()\<close>.\<close>

fun readsClock :: "Action \<Rightarrow> bool" where
  "readsClock (loadAccountsSuccess accs) = True"
| "readsClock (loadAccountSuccess acc) = True"
| "readsClock (createAccountSuccess response) = True"
| "readsClock (deleteAccountSuccess i response) = True"
| "readsClock (checkBalanceSuccess response) = True"
| "readsClock a = False"

text \<open>A state with its time stamps blanked: \<open>lastUpdated\<close> and every \<open>lastModifiedDate\<close>.\<close>

definition eraseModified :: "Account \<Rightarrow> Account" where
  "eraseModified a = a\<lparr>lastModifiedDate := 0\<rparr>"

definition eraseTime :: "AccountState \<Rightarrow> AccountState" where
  "eraseTime s =
     s\<lparr>accounts := map eraseModified (accounts s),
       selectedAccount := map_option eraseModified (selectedAccount s),
       lastUpdated := None\<rparr>"

text \<open>The failure actions and their payload.\<close>

fun failurePayload :: "Action \<Rightarrow> string option" where
  "failurePayload (loadAccountsFailure e) = Some e"
| "failurePayload (loadAccountFailure e) = Some e"
| "failurePayload (createAccountFailure e) = Some e"
| "failurePayload (deleteAccountFailure e) = Some e"
| "failurePayload (checkBalanceFailure e) = Some e"
| "failurePayload a = None"

section \<open>Example data\<close>

text \<open>
  An arithmetic that does not round. The engine's arithmetic agrees with it wherever the
  exact result is a double, as for the integers of the examples below.
\<close>

definition exactArithmetic :: DoubleArithmetic where
  "exactArithmetic = \<lparr> dadd = plus, dmul = times \<rparr>"

text \<open>A clock that starts at \<open>t\<close> and advances one millisecond per reading.\<close>

definition tick :: "date \<Rightarrow> clock" where
  "tick t n = t + int n"

definition savings3 :: Account where
  "savings3 =
     \<lparr> accountNumber = ''ACC001234569'', accountType = SAVINGS,
       accountHolderName = ''Kishore Kumar'', email = ''kishore.kumar@example.com'',
       phone = ''9876543212'', balance = 1500, minBalance = 1000, overdraftLimit = None,
       status = ACTIVE, createdDate = 1000, lastModifiedDate = 2000,
       monthlyServiceCharge = 0, interestRate = 9 / 2, id' = 3 \<rparr>"

definition current2 :: Account where
  "current2 =
     \<lparr> accountNumber = ''ACC001234568'', accountType = CURRENT,
       accountHolderName = ''Ramesh Kannan'', email = ''ramesh.kannan@example.com'',
       phone = ''9876543211'', balance = 100, minBalance = 5000, overdraftLimit = Some 10000,
       status = ACTIVE, createdDate = 1000, lastModifiedDate = 2000,
       monthlyServiceCharge = 500, interestRate = 0, id' = 2 \<rparr>"

text \<open>A well-typed \<open>Account\<close> that is a savings account with an overdraft limit.\<close>

definition savingsWithOverdraft :: Account where
  "savingsWithOverdraft = savings3\<lparr>overdraftLimit := Some 5000, id' := 1\<rparr>"

text \<open>The store after a first load of two accounts.\<close>

definition loaded2 :: AccountState where
  "loaded2 = accountReducer (tick 5000) initialAccountState (loadAccountsSuccess [savings3, current2])"

definition closed1 :: CloseAccountResponse where
  "closed1 = \<lparr> CloseAccountResponse.success = True,
               CloseAccountResponse.message = ''Account closed successfully'',
               closedDate = 5000 \<rparr>"

definition request1 :: CreateAccountRequest where
  "request1 = \<lparr> CreateAccountRequest.accountType = CURRENT,
                CreateAccountRequest.accountHolderName = ''Ramesh Kannan'',
                CreateAccountRequest.email = ''ramesh.kannan@example.com'',
                CreateAccountRequest.phone = ''9876543211'', initialDeposit = 6000 \<rparr>"

definition unreachable :: HttpErrorResponse where
  "unreachable = \<lparr> HttpErrorResponse.error = OtherBody, HttpErrorResponse.status = 0,
                   statusText = ''Unknown Error'' \<rparr>"

text \<open>Servers: one that fails the first request only, one that fails every request.\<close>

definition flakyList :: "Account list server" where
  "flakyList k = (if k = 0 then Inl unreachable else Inr [savings3, current2])"

definition downList :: "Account list server" where
  "downList k = Inl unreachable"

definition flakyFiltered :: "string \<times> string \<Rightarrow> Account list server" where
  "flakyFiltered params k = (if k = 0 then Inl unreachable else Inr [savings3, current2])"

definition flakyCreate :: "NewAccount \<Rightarrow> Account server" where
  "flakyCreate body k = (if k = 0 then Inl unreachable else Inr current2)"

definition flakyPatch :: "int \<Rightarrow> AccountStatus \<times> date \<Rightarrow> Account server" where
  "flakyPatch i updates k = (if k = 0 then Inl unreachable else Inr current2)"

definition serveCurrent2 :: "int \<Rightarrow> Account server" where
  "serveCurrent2 i k = Inr current2"

section \<open>The transition function and the clock\<close>

lemma updateBalances_erase:
  "map eraseModified (fst (updateBalances clk n r as)) =
   map (\<lambda>a. eraseModified (if id' a = accountId r then a\<lparr>balance := currentBalance r\<rparr> else a)) as"
  by (induction as arbitrary: n) (simp_all add: split_def Let_def eraseModified_def)

lemma eraseTime_checkBalanceSuccess:
  "eraseTime (accountReducer clk s (checkBalanceSuccess r)) =
   s\<lparr>accounts :=
       map (\<lambda>a. eraseModified (if id' a = accountId r then a\<lparr>balance := currentBalance r\<rparr> else a))
         (accounts s),
     selectedAccount :=
       map_option
         (\<lambda>a. eraseModified (if id' a = accountId r then a\<lparr>balance := currentBalance r\<rparr> else a))
         (selectedAccount s),
     loading := False, error := None, lastUpdated := None\<rparr>"
proof -
  obtain as' n where u: "updateBalances clk 0 r (accounts s) = (as', n)"
    by (cases "updateBalances clk 0 r (accounts s)")
  have m: "map eraseModified as' =
     map (\<lambda>a. eraseModified (if id' a = accountId r then a\<lparr>balance := currentBalance r\<rparr> else a))
       (accounts s)"
    using updateBalances_erase [of clk 0 r "accounts s"] u by simp
  show ?thesis
    using m by (cases "selectedAccount s") (simp_all add: u eraseTime_def eraseModified_def)
qed

text \<open>
  C1 (amended). The next state is a function of the state, the action and the clock
  readings of the transition. For an action whose handler does not call \<open>new Date()\<close>
  (the request actions, the failure actions, \<open>selectAccount\<close>, \<open>clearError\<close>) the next
  state depends on the state and the action only. For every action, two clocks give next
  states that differ at most in the time stamps \<open>lastUpdated\<close> and \<open>lastModifiedDate\<close>.
\<close>

theorem reducer_clock_dependence:
  "(\<not> readsClock a \<longrightarrow> accountReducer clk1 s a = accountReducer clk2 s a)
   \<and> eraseTime (accountReducer clk1 s a) = eraseTime (accountReducer clk2 s a)"
proof (cases a)
  case (checkBalanceSuccess r)
  then show ?thesis by (simp add: eraseTime_checkBalanceSuccess del: accountReducer.simps)
next
  case (selectAccount x)
  then show ?thesis by (cases x) (simp_all add: eraseTime_def)
qed (simp_all add: eraseTime_def Let_def)

theorem reducer_clock_dependence_witness:
  "\<not> readsClock (selectAccount (Some 3))
   \<and> accountReducer (tick 1) loaded2 (selectAccount (Some 3)) =
     accountReducer (tick 2) loaded2 (selectAccount (Some 3))
   \<and> eraseTime (accountReducer (tick 1) loaded2 (loadAccountsSuccess [])) =
     eraseTime (accountReducer (tick 2) loaded2 (loadAccountsSuccess []))"
  using reducer_clock_dependence [of "selectAccount (Some 3)" "tick 1" loaded2 "tick 2"]
    reducer_clock_dependence [of "loadAccountsSuccess []" "tick 1" loaded2 "tick 2"]
  by simp

text \<open>
  As stated, C1 fails: the handler of \<open>loadAccountsSuccess\<close> stores \<open>new Date()\<close>, so the
  same state and action give two next states under two clock readings.
\<close>

theorem reducer_pure_counterexample:
  "accountReducer (tick 1) initialAccountState (loadAccountsSuccess []) \<noteq>
   accountReducer (tick 2) initialAccountState (loadAccountsSuccess [])"
  by (simp add: initialAccountState_def tick_def)

section \<open>The selection\<close>

lemma someId_iff: "someId i as \<longleftrightarrow> i \<in> id' ` set as"
  by (auto simp: someId_def list_ex_iff)

lemma updateBalances_ids: "map id' (fst (updateBalances clk n r as)) = map id' as"
  by (induction as arbitrary: n) (simp_all add: split_def Let_def)

lemma updateBalances_someId: "someId i (fst (updateBalances clk n r as)) = someId i as"
proof -
  have "id' ` set (fst (updateBalances clk n r as)) = id' ` set as"
    using updateBalances_ids [of clk n r as] by (metis set_map)
  then show ?thesis by (simp add: someId_iff)
qed

lemma selectionValid_step:
  assumes "selectionValid s" and "keepsSelection s a"
  shows "selectionValid (accountReducer clk s a)"
proof (cases a)
  case (checkBalanceSuccess r)
  obtain as' n where u: "updateBalances clk 0 r (accounts s) = (as', n)"
    by (cases "updateBalances clk 0 r (accounts s)")
  have "someId i as' = someId i (accounts s)" for i
    using updateBalances_someId [of i clk 0 r "accounts s"] u by simp
  with assms checkBalanceSuccess u show ?thesis
    by (auto simp: selectionValid_def split: option.splits prod.splits)
next
  case (selectAccount x)
  with assms show ?thesis by (cases x) (auto simp: selectionValid_def)
next
  case (loadAccountSuccess acc)
  then show ?thesis
    by (auto simp: selectionValid_def someId_iff Let_def)
next
  case (deleteAccountSuccess i r)
  with assms show ?thesis
    by (auto simp: selectionValid_def someId_iff Let_def split: option.splits)
qed (use assms in \<open>auto simp: selectionValid_def someId_iff split: option.splits\<close>)

lemma selectionValid_run:
  "selectionValid s \<Longrightarrow> admits keepsSelection s tr \<Longrightarrow> selectionValid (run s tr)"
proof (induction tr arbitrary: s)
  case Nil
  then show ?case by simp
next
  case (Cons step tr)
  obtain clk a where step: "step = (clk, a)" by (cases step)
  from Cons.prems have "selectionValid (accountReducer clk s a)"
    by (simp add: step selectionValid_step)
  with Cons show ?case by (simp add: step)
qed

text \<open>
  C2 (amended). In every state that the store reaches from the initial state by catalog
  actions in which every \<open>selectAccount\<close> with an id names an account of the collection
  and every \<open>loadAccountsSuccess\<close> carries a list that holds the selected id (when there
  is one), \<open>selectedAccountId\<close> is null or the id of an account of the collection. In
  particular \<open>deleteAccountSuccess\<close> never leaves the selected id dangling.
\<close>

theorem selection_valid_when_kept:
  "admits keepsSelection initialAccountState tr \<Longrightarrow> selectionValid (run initialAccountState tr)"
  by (rule selectionValid_run) (simp_all add: selectionValid_def initialAccountState_def)

theorem selection_valid_when_kept_witness:
  "admits keepsSelection initialAccountState
     [(tick 5000, loadAccountsSuccess [savings3, current2]), (tick 6000, selectAccount (Some 3)),
      (tick 7000, deleteAccountSuccess 3 closed1)]
   \<and> selectionValid (run initialAccountState
     [(tick 5000, loadAccountsSuccess [savings3, current2]), (tick 6000, selectAccount (Some 3)),
      (tick 7000, deleteAccountSuccess 3 closed1)])"
proof -
  have h: "admits keepsSelection initialAccountState
     [(tick 5000, loadAccountsSuccess [savings3, current2]), (tick 6000, selectAccount (Some 3)),
      (tick 7000, deleteAccountSuccess 3 closed1)]"
    by (simp add: initialAccountState_def someId_def savings3_def current2_def)
  from h selection_valid_when_kept [OF h] show ?thesis by simp
qed

text \<open>
  As stated, C2 fails: \<open>selectAccount\<close> stores the id it is given whether or not an account
  matches, so selecting the id 99 in the initial state leaves \<open>selectedAccountId = 99\<close>
  over an empty collection.
\<close>

theorem selection_dangling_counterexample:
  "selectedAccountId (run initialAccountState [(tick 1, selectAccount (Some 99))]) = Some 99
   \<and> accounts (run initialAccountState [(tick 1, selectAccount (Some 99))]) = []
   \<and> \<not> selectionValid (run initialAccountState [(tick 1, selectAccount (Some 99))])"
  by (simp add: selectionValid_def someId_def initialAccountState_def)

section \<open>The overdraft limit\<close>

lemma updateBalances_overdraftOk:
  "list_all overdraftOk as \<Longrightarrow> list_all overdraftOk (fst (updateBalances clk n r as))"
  by (induction as arbitrary: n) (simp_all add: split_def Let_def overdraftOk_def)

lemma overdraft_step:
  assumes "list_all overdraftOk (accounts s)" and "payloadOk s a"
  shows "list_all overdraftOk (accounts (accountReducer clk s a))"
proof (cases a)
  case (checkBalanceSuccess r)
  obtain as' n where u: "updateBalances clk 0 r (accounts s) = (as', n)"
    by (cases "updateBalances clk 0 r (accounts s)")
  have "list_all overdraftOk as'"
    using updateBalances_overdraftOk [OF assms(1), of clk 0 r] u by simp
  with checkBalanceSuccess u show ?thesis
    by (auto split: option.splits prod.splits)
next
  case (selectAccount x)
  with assms show ?thesis by (cases x) auto
qed (use assms in \<open>auto simp: Let_def list_all_iff\<close>)

lemma overdraft_run:
  "list_all overdraftOk (accounts s) \<Longrightarrow> admits payloadOk s tr
   \<Longrightarrow> list_all overdraftOk (accounts (run s tr))"
proof (induction tr arbitrary: s)
  case Nil
  then show ?case by simp
next
  case (Cons step tr)
  obtain clk a where step: "step = (clk, a)" by (cases step)
  from Cons.prems have "list_all overdraftOk (accounts (accountReducer clk s a))"
    by (simp add: step overdraft_step)
  with Cons show ?case by (simp add: step)
qed

lemma newAccount_overdraftOk: "overdraftOk (newAccount ar clk rnd request)"
  by (simp add: overdraftOk_def newAccount_def Let_def)

text \<open>
  C3 (amended). The transition function stores the accounts it is handed and checks
  nothing. In every state that the store reaches from the initial state by catalog actions
  whose payload accounts (of \<open>loadAccountsSuccess\<close>, \<open>loadAccountSuccess\<close> and
  \<open>createAccountSuccess\<close>) have \<open>overdraftLimit\<close> defined if and only if their type is
  CURRENT, every account of the collection has \<open>overdraftLimit\<close> defined if and only if
  its type is CURRENT.
\<close>

theorem overdraft_invariant_given_payloads:
  "admits payloadOk initialAccountState tr
   \<Longrightarrow> list_all overdraftOk (accounts (run initialAccountState tr))"
  by (rule overdraft_run) (simp_all add: initialAccountState_def)

theorem overdraft_invariant_given_payloads_witness:
  "admits payloadOk initialAccountState
     [(tick 5000, loadAccountsSuccess [savings3, current2]),
      (tick 6000, checkBalanceSuccess (balanceCheckResponse exactArithmetic current2))]
   \<and> list_all overdraftOk (accounts (run initialAccountState
     [(tick 5000, loadAccountsSuccess [savings3, current2]),
      (tick 6000, checkBalanceSuccess (balanceCheckResponse exactArithmetic current2))]))"
proof -
  have h: "admits payloadOk initialAccountState
     [(tick 5000, loadAccountsSuccess [savings3, current2]),
      (tick 6000, checkBalanceSuccess (balanceCheckResponse exactArithmetic current2))]"
    by (simp add: overdraftOk_def savings3_def current2_def)
  from h overdraft_invariant_given_payloads [OF h] show ?thesis by simp
qed

text \<open>
  As stated, C3 fails: a loaded list may hold a savings account that carries an overdraft
  limit, which the type \<open>Account\<close> allows, and the store keeps it.
\<close>

theorem overdraft_invariant_counterexample:
  "accountType savingsWithOverdraft = SAVINGS
   \<and> overdraftLimit savingsWithOverdraft = Some 5000
   \<and> accounts (run initialAccountState [(tick 1, loadAccountsSuccess [savingsWithOverdraft])]) =
       [savingsWithOverdraft]
   \<and> \<not> list_all overdraftOk
       (accounts (run initialAccountState [(tick 1, loadAccountsSuccess [savingsWithOverdraft])]))"
  by (simp add: overdraftOk_def savingsWithOverdraft_def savings3_def)

section \<open>Transitions of the store\<close>

text \<open>
  C4. For every state and account id \<open>X\<close>, \<open>deleteAccountSuccess\<close> with \<open>X\<close> removes
  every account whose id is \<open>X\<close> and keeps the others in order, sets \<open>loading\<close> to false
  and \<open>lastUpdated\<close> to the current time; when \<open>selectedAccountId\<close> was \<open>X\<close>, the selected
  id and the selected account are null afterwards, otherwise both are unchanged.
\<close>

theorem deleteAccountSuccess_transition:
  "accounts (accountReducer clk s (deleteAccountSuccess X response)) =
     filter (\<lambda>a. id' a \<noteq> X) (accounts s)
   \<and> \<not> someId X (accounts (accountReducer clk s (deleteAccountSuccess X response)))
   \<and> loading (accountReducer clk s (deleteAccountSuccess X response)) = False
   \<and> lastUpdated (accountReducer clk s (deleteAccountSuccess X response)) = Some (clk 0)
   \<and> (if selectedAccountId s = Some X
      then selectedAccountId (accountReducer clk s (deleteAccountSuccess X response)) = None
         \<and> selectedAccount (accountReducer clk s (deleteAccountSuccess X response)) = None
      else selectedAccountId (accountReducer clk s (deleteAccountSuccess X response)) =
             selectedAccountId s
         \<and> selectedAccount (accountReducer clk s (deleteAccountSuccess X response)) =
             selectedAccount s)"
  by (simp add: someId_def list_ex_iff)

theorem deleteAccountSuccess_transition_witness:
  "selectedAccountId (accountReducer (tick 6000) loaded2 (selectAccount (Some 3))) = Some 3
   \<and> selectedAccountId
       (accountReducer (tick 7000) (accountReducer (tick 6000) loaded2 (selectAccount (Some 3)))
          (deleteAccountSuccess 3 closed1)) = None
   \<and> selectedAccount
       (accountReducer (tick 7000) (accountReducer (tick 6000) loaded2 (selectAccount (Some 3)))
          (deleteAccountSuccess 3 closed1)) = None
   \<and> accounts
       (accountReducer (tick 7000) (accountReducer (tick 6000) loaded2 (selectAccount (Some 3)))
          (deleteAccountSuccess 3 closed1)) = [current2]
   \<and> lastUpdated
       (accountReducer (tick 7000) (accountReducer (tick 6000) loaded2 (selectAccount (Some 3)))
          (deleteAccountSuccess 3 closed1)) = Some 7000"
  using deleteAccountSuccess_transition [of "tick 7000"
      "accountReducer (tick 6000) loaded2 (selectAccount (Some 3))" 3 closed1]
  by (simp add: loaded2_def initialAccountState_def savings3_def current2_def tick_def)

text \<open>
  C5. For every state and account \<open>a\<close>, \<open>loadAccountSuccess\<close> with \<open>a\<close> upserts \<open>a\<close> by
  id: when an element has the id of \<open>a\<close>, the elements with that id are replaced by \<open>a\<close>
  and order and length are kept; otherwise \<open>a\<close> is appended at the end. It selects \<open>a\<close>
  with \<open>selectedAccountId\<close> the id of \<open>a\<close>, sets \<open>loading\<close> to false, clears the error and
  sets \<open>lastUpdated\<close> to the current time.
\<close>

theorem loadAccountSuccess_upsert:
  "accounts (accountReducer clk s (loadAccountSuccess a)) =
     (if someId (id' a) (accounts s)
      then map (\<lambda>x. if id' x = id' a then a else x) (accounts s)
      else accounts s @ [a])
   \<and> (someId (id' a) (accounts s) \<longrightarrow>
        length (accounts (accountReducer clk s (loadAccountSuccess a))) = length (accounts s)
        \<and> (\<forall>n < length (accounts s).
              accounts (accountReducer clk s (loadAccountSuccess a)) ! n =
                (if id' (accounts s ! n) = id' a then a else accounts s ! n)))
   \<and> selectedAccount (accountReducer clk s (loadAccountSuccess a)) = Some a
   \<and> selectedAccountId (accountReducer clk s (loadAccountSuccess a)) = Some (id' a)
   \<and> loading (accountReducer clk s (loadAccountSuccess a)) = False
   \<and> AccountState.error (accountReducer clk s (loadAccountSuccess a)) = None
   \<and> lastUpdated (accountReducer clk s (loadAccountSuccess a)) = Some (clk 0)"
  by (simp add: Let_def)

theorem loadAccountSuccess_upsert_witness:
  "someId (id' (current2\<lparr>balance := 999\<rparr>)) (accounts loaded2)
   \<and> accounts (accountReducer (tick 6000) loaded2 (loadAccountSuccess (current2\<lparr>balance := 999\<rparr>))) =
       [savings3, current2\<lparr>balance := 999\<rparr>]
   \<and> length (accounts
        (accountReducer (tick 6000) loaded2 (loadAccountSuccess (current2\<lparr>balance := 999\<rparr>)))) = 2
   \<and> \<not> someId (id' savingsWithOverdraft) (accounts loaded2)
   \<and> accounts (accountReducer (tick 6000) loaded2 (loadAccountSuccess savingsWithOverdraft)) =
       [savings3, current2, savingsWithOverdraft]
   \<and> selectedAccountId (accountReducer (tick 6000) loaded2 (loadAccountSuccess savingsWithOverdraft)) =
       Some 1"
  using loadAccountSuccess_upsert [of "tick 6000" loaded2 "current2\<lparr>balance := 999\<rparr>"]
    loadAccountSuccess_upsert [of "tick 6000" loaded2 savingsWithOverdraft]
  by (simp add: loaded2_def initialAccountState_def someId_def savings3_def current2_def
      savingsWithOverdraft_def)

text \<open>
  C6. For every state and every failure action (\<open>loadAccountsFailure\<close>,
  \<open>loadAccountFailure\<close>, \<open>createAccountFailure\<close>, \<open>deleteAccountFailure\<close>,
  \<open>checkBalanceFailure\<close>) with error payload \<open>e\<close>, the next state has \<open>loading\<close> false and
  \<open>error\<close> equal to \<open>e\<close>, and the accounts, the selection, \<open>initialized\<close> and
  \<open>lastUpdated\<close> are unchanged.
\<close>

theorem failure_atomic:
  "failurePayload a = Some e \<Longrightarrow>
     accountReducer clk s a = s\<lparr>loading := False, error := Some e\<rparr>
   \<and> loading (accountReducer clk s a) = False
   \<and> AccountState.error (accountReducer clk s a) = Some e
   \<and> accounts (accountReducer clk s a) = accounts s
   \<and> selectedAccount (accountReducer clk s a) = selectedAccount s
   \<and> selectedAccountId (accountReducer clk s a) = selectedAccountId s
   \<and> initialized (accountReducer clk s a) = initialized s
   \<and> lastUpdated (accountReducer clk s a) = lastUpdated s"
  by (cases a) auto

theorem failure_atomic_witness:
  "failurePayload (deleteAccountFailure ''Account not found.'') = Some ''Account not found.''
   \<and> accounts (accountReducer (tick 6000) loaded2 (deleteAccountFailure ''Account not found.'')) =
       [savings3, current2]
   \<and> AccountState.error
       (accountReducer (tick 6000) loaded2 (deleteAccountFailure ''Account not found.'')) =
       Some ''Account not found.''
   \<and> lastUpdated (accountReducer (tick 6000) loaded2 (deleteAccountFailure ''Account not found.'')) =
       Some 5000"
  using failure_atomic [of "deleteAccountFailure ''Account not found.''"
      "''Account not found.''" "tick 6000" loaded2]
  by (simp add: loaded2_def tick_def)

section \<open>Balance check\<close>

lemma availableBalance_eq:
  "availableBalance (balanceCheckResponse ar a) =
     (if accountType a = CURRENT
      then (case overdraftLimit a of
              None \<Rightarrow> balance a
            | Some l \<Rightarrow> if l = 0 then balance a else dadd ar (balance a) l)
      else balance a)"
  by (simp add: balanceCheckResponse_def truthy_def Let_def split: option.splits)

lemma isLowBalance_eq:
  "isLowBalance (balanceCheckResponse ar a) =
     (balance a < (case accountType a of SAVINGS \<Rightarrow> 2000 | CURRENT \<Rightarrow> 7000))"
  by (cases "accountType a")
     (simp_all add: balanceCheckResponse_def Let_def SAVINGS_LOW_BALANCE_THRESHOLD_def
        CURRENT_LOW_BALANCE_THRESHOLD_def)

text \<open>
  C7 (amended). When the server answers the request with the account \<open>a\<close>, the balance
  check returns \<open>availableBalance\<close> equal to the engine's double sum of the balance and
  the overdraft limit for a CURRENT account (the balance alone when the limit is absent or
  zero) and to the balance for a SAVINGS account, and \<open>isLowBalance\<close> equal to
  \<open>balance < 2000\<close> for SAVINGS and \<open>balance < 7000\<close> for CURRENT, both thresholds fixed
  constants. In particular, for a CURRENT account with balance 100 and overdraft limit
  10000, whose double sum is 10100, the available balance is 10100 and \<open>isLowBalance\<close> is
  true, since 100 is below 7000.
\<close>

theorem checkBalance_values:
  assumes "server i k = Inr a"
  shows "fst (AccountService_checkBalance ar server i k) = Inr (balanceCheckResponse ar a)
       \<and> availableBalance (balanceCheckResponse ar a) =
           (if accountType a = CURRENT
            then (case overdraftLimit a of
                    None \<Rightarrow> balance a
                  | Some l \<Rightarrow> if l = 0 then balance a else dadd ar (balance a) l)
            else balance a)
       \<and> isLowBalance (balanceCheckResponse ar a) =
           (balance a < (case accountType a of SAVINGS \<Rightarrow> 2000 | CURRENT \<Rightarrow> 7000))
       \<and> (accountType a = CURRENT \<and> balance a = 100 \<and> overdraftLimit a = Some 10000
            \<and> dadd ar 100 10000 = 10100 \<longrightarrow>
          availableBalance (balanceCheckResponse ar a) = 10100
          \<and> isLowBalance (balanceCheckResponse ar a) = True)"
proof -
  have "fst (AccountService_checkBalance ar server i k) = Inr (balanceCheckResponse ar a)"
    using assms
    by (simp add: AccountService_checkBalance_def catchError_def map_op_def http_request_def)
  then show ?thesis
    using availableBalance_eq [of ar a] isLowBalance_eq [of ar a] by simp
qed

theorem checkBalance_values_witness:
  "serveCurrent2 2 0 = Inr current2
   \<and> accountType current2 = CURRENT \<and> balance current2 = 100
   \<and> overdraftLimit current2 = Some 10000
   \<and> dadd exactArithmetic 100 10000 = 10100
   \<and> fst (AccountService_checkBalance exactArithmetic serveCurrent2 2 0) =
       Inr (balanceCheckResponse exactArithmetic current2)
   \<and> availableBalance (balanceCheckResponse exactArithmetic current2) = 10100
   \<and> isLowBalance (balanceCheckResponse exactArithmetic current2) = True"
proof -
  have h: "serveCurrent2 2 0 = Inr current2" by (simp add: serveCurrent2_def)
  show ?thesis
    using h checkBalance_values [of serveCurrent2 2 0 current2 exactArithmetic]
    by (simp add: current2_def exactArithmetic_def)
qed

text \<open>
  As stated, C7 fails in its scenario: for the CURRENT account with balance 100 and
  overdraft limit 10000 the check compares the balance, not the available balance, with
  7000, and \<open>isLowBalance\<close> is not false. The comparison uses no addition.
\<close>

theorem checkBalance_scenario_counterexample:
  "accountType current2 = CURRENT \<and> balance current2 = 100
   \<and> overdraftLimit current2 = Some 10000
   \<and> isLowBalance (balanceCheckResponse exactArithmetic current2) \<noteq> False"
  by (simp add: current2_def balanceCheckResponse_def Let_def
      CURRENT_LOW_BALANCE_THRESHOLD_def)

section \<open>Retries of the request gateway\<close>

lemma retry_once:
  "retry 1 source n =
     (case source n of (Inl e, n') \<Rightarrow> source n' | (Inr v, n') \<Rightarrow> (Inr v, n'))"
  by (simp add: numeral_eq_Suc split: prod.splits sum.splits)

lemma single_request:
  "catchError handleError (map_op f (http_request server)) k =
     (case server k of
        Inl e \<Rightarrow> (Inl (Error (errorMessage e)), k + 1)
      | Inr v \<Rightarrow> (Inr (f v), k + 1))"
  by (simp add: catchError_def map_op_def http_request_def handleError_def throwError_def
      split: sum.splits)

text \<open>
  C8 (amended). Whatever the outcomes of the underlying requests, the unfiltered list
  \<open>getAllAccounts\<close> repeats a failed request once: a first success is returned after one
  request; a failure followed by a success is returned as the success, after two
  requests; two failures surface the error of the second, after two requests. The
  filtered lists \<open>getAccountsByStatus\<close>, \<open>getAccountsByType\<close> and \<open>searchAccounts\<close> and the
  mutations \<open>createAccount\<close> and \<open>closeAccount\<close> issue one request, and its failure
  surfaces as the error.
\<close>

theorem retry_policy:
  "(list k = Inr v \<longrightarrow>
      AccountService_getAllAccounts list k = (Inr (transformAccountDates v), k + 1))
   \<and> (list k = Inl e1 \<and> list (k + 1) = Inr v \<longrightarrow>
      AccountService_getAllAccounts list k = (Inr (transformAccountDates v), k + 2))
   \<and> (list k = Inl e1 \<and> list (k + 1) = Inl e2 \<longrightarrow>
      AccountService_getAllAccounts list k = (Inl (Error (errorMessage e2)), k + 2))
   \<and> (post (newAccount ar clk rnd request) k = Inl e3 \<longrightarrow>
      AccountService_createAccount ar clk rnd post request k =
        (Inl (Error (errorMessage e3)), k + 1))
   \<and> (patch i (CLOSED, clk 0) k = Inl e4 \<longrightarrow>
      AccountService_closeAccount clk patch i k = (Inl (Error (errorMessage e4)), k + 1))
   \<and> snd (AccountService_createAccount ar clk rnd post request k) = k + 1
   \<and> snd (AccountService_closeAccount clk patch i k) = k + 1
   \<and> (filtered (''status'', AccountStatus_value st) k = Inl e5 \<longrightarrow>
      AccountService_getAccountsByStatus filtered st k = (Inl (Error (errorMessage e5)), k + 1))
   \<and> (filtered (''accountType'', AccountType_value ty) k = Inl e6 \<longrightarrow>
      AccountService_getAccountsByType filtered ty k = (Inl (Error (errorMessage e6)), k + 1))
   \<and> (filtered (''q'', searchTerm) k = Inl e7 \<longrightarrow>
      AccountService_searchAccounts filtered searchTerm k =
        (Inl (Error (errorMessage e7)), k + 1))
   \<and> snd (AccountService_getAccountsByStatus filtered st k) = k + 1
   \<and> snd (AccountService_getAccountsByType filtered ty k) = k + 1
   \<and> snd (AccountService_searchAccounts filtered searchTerm k) = k + 1"
proof -
  have l: "(list k = Inr v \<longrightarrow>
      AccountService_getAllAccounts list k = (Inr (transformAccountDates v), k + 1))
   \<and> (list k = Inl e1 \<and> list (k + 1) = Inr v \<longrightarrow>
      AccountService_getAllAccounts list k = (Inr (transformAccountDates v), k + 2))
   \<and> (list k = Inl e1 \<and> list (k + 1) = Inl e2 \<longrightarrow>
      AccountService_getAllAccounts list k = (Inl (Error (errorMessage e2)), k + 2))"
    by (simp add: AccountService_getAllAccounts_def catchError_def retry_once map_op_def
        http_request_def handleError_def throwError_def)
  have c: "(post (newAccount ar clk rnd request) k = Inl e3 \<longrightarrow>
      AccountService_createAccount ar clk rnd post request k =
        (Inl (Error (errorMessage e3)), k + 1))
    \<and> snd (AccountService_createAccount ar clk rnd post request k) = k + 1"
    by (cases "post (newAccount ar clk rnd request) k")
       (simp_all add: AccountService_createAccount_def single_request)
  have d: "(patch i (CLOSED, clk 0) k = Inl e4 \<longrightarrow>
      AccountService_closeAccount clk patch i k = (Inl (Error (errorMessage e4)), k + 1))
    \<and> snd (AccountService_closeAccount clk patch i k) = k + 1"
    by (cases "patch i (CLOSED, clk 0) k")
       (simp_all add: AccountService_closeAccount_def single_request Let_def)
  have f1: "(filtered (''status'', AccountStatus_value st) k = Inl e5 \<longrightarrow>
      AccountService_getAccountsByStatus filtered st k = (Inl (Error (errorMessage e5)), k + 1))
    \<and> snd (AccountService_getAccountsByStatus filtered st k) = k + 1"
    by (cases "filtered (''status'', AccountStatus_value st) k")
       (simp_all add: AccountService_getAccountsByStatus_def single_request Let_def)
  have f2: "(filtered (''accountType'', AccountType_value ty) k = Inl e6 \<longrightarrow>
      AccountService_getAccountsByType filtered ty k = (Inl (Error (errorMessage e6)), k + 1))
    \<and> snd (AccountService_getAccountsByType filtered ty k) = k + 1"
    by (cases "filtered (''accountType'', AccountType_value ty) k")
       (simp_all add: AccountService_getAccountsByType_def single_request Let_def)
  have f3: "(filtered (''q'', searchTerm) k = Inl e7 \<longrightarrow>
      AccountService_searchAccounts filtered searchTerm k =
        (Inl (Error (errorMessage e7)), k + 1))
    \<and> snd (AccountService_searchAccounts filtered searchTerm k) = k + 1"
    by (cases "filtered (''q'', searchTerm) k")
       (simp_all add: AccountService_searchAccounts_def single_request Let_def)
  from l c d f1 f2 f3 show ?thesis by blast
qed

theorem retry_policy_witness:
  "flakyList 0 = Inl unreachable \<and> flakyList 1 = Inr [savings3, current2]
   \<and> AccountService_getAllAccounts flakyList 0 = (Inr (transformAccountDates [savings3, current2]), 2)
   \<and> downList 0 = Inl unreachable \<and> downList 1 = Inl unreachable
   \<and> AccountService_getAllAccounts downList 0 = (Inl (Error (errorMessage unreachable)), 2)
   \<and> flakyCreate (newAccount exactArithmetic (tick 0) (1 / 2) request1) 0 = Inl unreachable
   \<and> AccountService_createAccount exactArithmetic (tick 0) (1 / 2) flakyCreate request1 0 =
       (Inl (Error (errorMessage unreachable)), 1)
   \<and> flakyPatch 2 (CLOSED, tick 0 0) 0 = Inl unreachable
   \<and> AccountService_closeAccount (tick 0) flakyPatch 2 0 =
       (Inl (Error (errorMessage unreachable)), 1)
   \<and> flakyFiltered (''status'', AccountStatus_value ACTIVE) 0 = Inl unreachable
   \<and> AccountService_getAccountsByStatus flakyFiltered ACTIVE 0 =
       (Inl (Error (errorMessage unreachable)), 1)
   \<and> flakyFiltered (''accountType'', AccountType_value SAVINGS) 0 = Inl unreachable
   \<and> AccountService_getAccountsByType flakyFiltered SAVINGS 0 =
       (Inl (Error (errorMessage unreachable)), 1)
   \<and> flakyFiltered (''q'', ''Ravi'') 0 = Inl unreachable
   \<and> AccountService_searchAccounts flakyFiltered ''Ravi'' 0 =
       (Inl (Error (errorMessage unreachable)), 1)"
  using retry_policy [of flakyList 0 "[savings3, current2]" unreachable unreachable
      flakyCreate exactArithmetic "tick 0" "1 / 2" request1 unreachable flakyPatch 2 unreachable
      flakyFiltered ACTIVE unreachable SAVINGS unreachable "''Ravi''" unreachable]
    retry_policy [of downList 0 "[savings3, current2]" unreachable unreachable
      flakyCreate exactArithmetic "tick 0" "1 / 2" request1 unreachable flakyPatch 2 unreachable
      flakyFiltered ACTIVE unreachable SAVINGS unreachable "''Ravi''" unreachable]
  by (simp add: flakyList_def downList_def flakyCreate_def flakyPatch_def flakyFiltered_def)

text \<open>
  As stated, C8 fails for a filtered list: \<open>getAccountsByStatus\<close> pipes no \<open>retry\<close>, so
  when its first request fails the caller observes the error after that one request,
  although a second request would succeed.
\<close>

theorem filtered_list_counterexample:
  "flakyFiltered (''status'', AccountStatus_value ACTIVE) 0 = Inl unreachable
   \<and> flakyFiltered (''status'', AccountStatus_value ACTIVE) 1 = Inr [savings3, current2]
   \<and> AccountService_getAccountsByStatus flakyFiltered ACTIVE 0 =
       (Inl (Error (errorMessage unreachable)), 1)
   \<and> AccountService_getAccountsByStatus flakyFiltered ACTIVE 0 \<noteq>
       (Inr (transformAccountDates [savings3, current2]), 2)"
  by (simp add: flakyFiltered_def AccountService_getAccountsByStatus_def Let_def catchError_def
      map_op_def http_request_def handleError_def throwError_def)

section \<open>Flattening policies of the effects\<close>




section \<open>The two low-balance projections\<close>

text \<open>
  C10. For every state, the state helper \<open>getLowBalanceAccounts\<close> returns the list that
  the selector \<open>selectLowBalanceAccounts\<close> returns on the same accounts, and both are the
  ACTIVE accounts whose balance is below 2000 for SAVINGS or 7000 for CURRENT, in
  collection order.
\<close>

theorem lowBalance_agree:
  "getLowBalanceAccounts (selectAccountState appState) = selectLowBalanceAccounts appState
   \<and> getLowBalanceAccounts s = lowBalance_spec (accounts s)
   \<and> selectLowBalanceAccounts appState = lowBalance_spec (accounts (selectAccountState appState))"
  by (auto simp: getLowBalanceAccounts_def getActiveAccounts_def selectLowBalanceAccounts_def
      selectActiveAccounts_def selectAllAccounts_def createSelector_def lowBalance_spec_def
      Let_def intro!: filter_cong split: AccountType.splits)
     (metis AccountType.exhaust)+

theorem lowBalance_agree_witness:
  "getLowBalanceAccounts loaded2 = [savings3, current2]
   \<and> getLowBalanceAccounts loaded2 = lowBalance_spec (accounts loaded2)
   \<and> selectLowBalanceAccounts \<lparr> accountsFeature = loaded2 \<rparr> = [savings3, current2]"
  using lowBalance_agree [of "\<lparr> accountsFeature = loaded2 \<rparr>" loaded2]
  by (simp add: selectAccountState_def lowBalance_spec_def loaded2_def savings3_def current2_def)

end
